theory Spec2Isabelle
  imports Main
begin

section \<open>Data model (frontend/src/types.ts)\<close>

text \<open>
  The interfaces of \<^verbatim>\<open>types.ts\<close> as records. A field whose name is used by two
  interfaces (or by a constant of HOL) carries the interface as a prefix. A
  \<^verbatim>\<open>Record<string, string>\<close> is an association list in the key order of the object;
  an optional field \<^verbatim>\<open>f?: T\<close> is a \<open>T option\<close>; a \<^verbatim>\<open>number\<close> that counts
  something is an \<open>int\<close>.
\<close>

record NodeAddress =
  addr_type :: string
  address :: string

record NodeInfo =
  info_os :: string
  info_architecture :: string
  info_kernel :: string
  info_container_runtime :: string
  info_kubelet_version :: string

record ResourceInfo =
  cpu :: string
  memory :: string
  pods :: "string option"

record NodeMetrics =
  metrics_cpu :: string
  metrics_memory :: string

record Container =
  container_name :: string
  container_image :: string
  ready :: bool

record Pod =
  pod_name :: string
  pod_namespace :: string
  pod_uid :: string
  pod_node :: string
  pod_status :: string
  pod_ip :: string
  pod_labels :: "(string \<times> string) list"
  containers :: "Container list"
  restart_count :: int

record Node =
  name :: string
  uid :: string
  labels :: "(string \<times> string) list"
  role :: string
  status :: string
  capacity :: ResourceInfo
  allocatable :: ResourceInfo
  info :: NodeInfo
  addresses :: "NodeAddress list"
  pods_on_node :: int
  metrics :: "NodeMetrics option"
  pods_details :: "Pod list option"

record Namespace =
  ns_name :: string
  ns_uid :: string
  ns_status :: string
  ns_labels :: "(string \<times> string) list"
  creation_timestamp :: "string option"

record Deployment =
  dep_name :: string
  dep_namespace :: string
  dep_uid :: string
  replicas :: int
  available_replicas :: int
  ready_replicas :: int
  dep_labels :: "(string \<times> string) list"

record ServicePort =
  port :: int
  target_port :: string
  protocol :: string

record Service =
  svc_name :: string
  svc_namespace :: string
  svc_uid :: string
  svc_type :: string
  cluster_ip :: string
  ports :: "ServicePort list"
  svc_labels :: "(string \<times> string) list"
  selector :: "(string \<times> string) list"

record ClusterData =
  nodes :: "Node list"
  namespaces :: "Namespace list"
  pods_list :: "Pod list"
  deployments :: "Deployment list"
  services :: "Service list"

text \<open>A node with the given name, role and optional metrics; every other field is fixed.\<close>

definition sampleNode :: "string \<Rightarrow> string \<Rightarrow> NodeMetrics option \<Rightarrow> Node" where
  "sampleNode n r m =
     \<lparr>name = n, uid = n, labels = [], role = r, status = ''Ready'',
      capacity = \<lparr>cpu = ''4'', memory = ''16Gi'', pods = Some ''110''\<rparr>,
      allocatable = \<lparr>cpu = ''4'', memory = ''15Gi'', pods = Some ''110''\<rparr>,
      info = \<lparr>info_os = ''linux'', info_architecture = ''amd64'', info_kernel = ''6.1'',
              info_container_runtime = ''containerd'', info_kubelet_version = ''v1.30''\<rparr>,
      addresses = [], pods_on_node = 0, metrics = m, pods_details = None\<rparr>"

section \<open>Topology graph (frontend/src/components/ClusterTopology.tsx)\<close>

subsection \<open>The partition by role\<close>

definition masterNodes :: "Node list \<Rightarrow> Node list" where
  "masterNodes ns = filter (\<lambda>n. role n = ''master'') ns"

definition workerNodes :: "Node list \<Rightarrow> Node list" where
  "workerNodes ns = filter (\<lambda>n. role n = ''worker'') ns"

subsection \<open>Vertices\<close>

text \<open>
  The object \<^verbatim>\<open>nodes.map\<close> builds for a node: its id, its colours and its level. The
  label, the font, the shape and the shadow are presentation literals and are left out.
\<close>

record VisNode =
  vis_id :: string
  vis_background :: string
  vis_border :: string
  vis_highlight :: string
  vis_level :: nat

definition visNode :: "Node \<Rightarrow> VisNode" where
  "visNode node =
     (let isMaster = (role node = ''master'') in
      \<lparr>vis_id = name node,
       vis_background =
         (if isMaster then (if status node = ''Ready'' then ''#2196f3'' else ''#f44336'')
          else (if status node = ''Ready'' then ''#4caf50'' else ''#f44336'')),
       vis_border =
         (if isMaster then (if status node = ''Ready'' then ''#1565c0'' else ''#c62828'')
          else (if status node = ''Ready'' then ''#2e7d32'' else ''#c62828'')),
       vis_highlight = (if isMaster then ''#42a5f5'' else ''#66bb6a''),
       vis_level = (if isMaster then 0 else 1)\<rparr>)"


subsection \<open>Edges\<close>

text \<open>
  An edge is its two endpoints, each the name of a node; colour, width, arrows and
  smoothing are literals. The nested \<^verbatim>\<open>forEach\<close> pushes one edge per master and worker,
  masters outermost; the \<^verbatim>\<open>for\<close> loop pushes one edge per index \<open>i < length - 1\<close>.
\<close>

record VisEdge =
  edge_from :: string
  edge_to :: string

definition masterWorkerEdges :: "Node list \<Rightarrow> Node list \<Rightarrow> VisEdge list" where
  "masterWorkerEdges ms ws =
     concat (map (\<lambda>master. map (\<lambda>worker.
       \<lparr>edge_from = name master, edge_to = name worker\<rparr>) ws) ms)"

definition workerChainEdges :: "Node list \<Rightarrow> VisEdge list" where
  "workerChainEdges ws =
     map (\<lambda>i. \<lparr>edge_from = name (ws ! i), edge_to = name (ws ! (i + 1))\<rparr>)
       [0 ..< length ws - 1]"

definition visEdges :: "Node list \<Rightarrow> VisEdge list" where
  "visEdges ns =
     (let ms = masterNodes ns; ws = workerNodes ns in
      if length ms > 0 \<and> length ws > 0 then masterWorkerEdges ms ws
      else if length ms = 0 \<and> length ws > 1 then workerChainEdges ws
      else [])"

subsection \<open>The effect that creates the network\<close>







subsection \<open>JavaScript values the components test\<close>

text \<open>
  What a rejected promise throws is an \<^verbatim>\<open>Error\<close> with its message or some other value;
  \<^verbatim>\<open>err instanceof Error ? err.message : fallback\<close> reads it. A \<^verbatim>\<open>string | null\<close> is
  truthy when it is a string other than the empty one.
\<close>

datatype Thrown = ErrorObject string | OtherValue

definition errorMessage :: "Thrown \<Rightarrow> string \<Rightarrow> string" where
  "errorMessage err fallback = (case err of ErrorObject m \<Rightarrow> m | OtherValue \<Rightarrow> fallback)"

definition truthy :: "string option \<Rightarrow> bool" where
  "truthy v = (case v of None \<Rightarrow> False | Some s \<Rightarrow> s \<noteq> [])"

subsection \<open>State and view of the topology component\<close>

record TopologyState =
  topo_loading :: bool
  topo_error :: "string option"
  topo_nodes :: "Node list"
  topo_refreshing :: bool

definition initialTopology :: TopologyState where
  "initialTopology =
     \<lparr>topo_loading = True, topo_error = None, topo_nodes = [], topo_refreshing = False\<rparr>"

text \<open>
  \<^verbatim>\<open>loadClusterData\<close>, with the outcome of \<^verbatim>\<open>fetchNodes\<close> as an argument: the state
  when the promise has settled and the \<^verbatim>\<open>finally\<close> block has run.
\<close>

definition loadClusterData :: "Thrown + Node list \<Rightarrow> TopologyState \<Rightarrow> TopologyState" where
  "loadClusterData fetched s =
     (let s1 = s\<lparr>topo_refreshing := True, topo_error := None\<rparr>;
          s2 = (case fetched of
                  Inr nodeData \<Rightarrow> s1\<lparr>topo_nodes := nodeData\<rparr>
                | Inl err \<Rightarrow>
                    s1\<lparr>topo_error := Some (errorMessage err ''Failed to load cluster data'')\<rparr>)
      in s2\<lparr>topo_loading := False, topo_refreshing := False\<rparr>)"

text \<open>The counters of the information bar, each a filter or a fold of the node list.\<close>

record InfoBar =
  total_nodes :: nat
  masters :: nat
  workers :: nat
  ready_nodes :: nat
  not_ready_nodes :: nat
  total_pods :: int

definition infoBar :: "Node list \<Rightarrow> InfoBar" where
  "infoBar ns =
     \<lparr>total_nodes = length ns,
      masters = length (filter (\<lambda>n. role n = ''master'') ns),
      workers = length (filter (\<lambda>n. role n = ''worker'') ns),
      ready_nodes = length (filter (\<lambda>n. status n = ''Ready'') ns),
      not_ready_nodes = length (filter (\<lambda>n. status n \<noteq> ''Ready'') ns),
      total_pods = foldl (\<lambda>sum n. sum + pods_on_node n) 0 ns\<rparr>"

text \<open>
  What the component returns: the loading message, the error message alone, the empty
  message, or the page with the information bar and the canvas on which the effect
  draws the node list.
\<close>

datatype TopologyView =
    LoadingMessage
  | ErrorMessage string
  | EmptyMessage
  | TopologyPage InfoBar "Node list"

definition renderTopology :: "TopologyState \<Rightarrow> TopologyView" where
  "renderTopology s =
     (if topo_loading s then LoadingMessage
      else if truthy (topo_error s) then ErrorMessage (case topo_error s of Some e \<Rightarrow> e | None \<Rightarrow> [])
      else if length (topo_nodes s) = 0 then EmptyMessage
      else TopologyPage (infoBar (topo_nodes s)) (topo_nodes s))"

section \<open>Node detail panel (frontend/src/components/NodeDetail.tsx)\<close>

record DetailState =
  detail_node :: "Node option"
  detail_loading :: bool
  detail_error :: "string option"

definition initialDetail :: DetailState where
  "initialDetail = \<lparr>detail_node = None, detail_loading = False, detail_error = None\<rparr>"

text \<open>
  The effect that runs when \<^verbatim>\<open>nodeName\<close> changes, with \<^verbatim>\<open>fetchNodeDetails\<close> as the
  function from a name to the outcome of the request: the state when the promise has
  settled.
\<close>

definition nodeDetailEffect ::
  "string option \<Rightarrow> (string \<Rightarrow> Thrown + Node) \<Rightarrow> DetailState \<Rightarrow> DetailState" where
  "nodeDetailEffect nodeName fetchNodeDetails s =
     (if \<not> truthy nodeName then s\<lparr>detail_node := None\<rparr>
      else
        (let s1 = s\<lparr>detail_loading := True, detail_error := None\<rparr>;
             s2 = (case fetchNodeDetails (case nodeName of Some n \<Rightarrow> n | None \<Rightarrow> []) of
                     Inr data \<Rightarrow> s1\<lparr>detail_node := Some data\<rparr>
                   | Inl err \<Rightarrow>
                       s1\<lparr>detail_error := Some (errorMessage err ''Failed to load node details'')\<rparr>)
         in s2\<lparr>detail_loading := False\<rparr>))"

text \<open>
  The rows of the resource table: capacity, allocatable, and the current usage only
  when the node has metrics. An absent \<^verbatim>\<open>pods\<close> quantity renders as nothing.
\<close>

datatype ResourceRow = ResourceRow string string string string

definition shown :: "string option \<Rightarrow> string" where
  "shown v = (case v of None \<Rightarrow> [] | Some s \<Rightarrow> s)"

definition resourceRows :: "Node \<Rightarrow> ResourceRow list" where
  "resourceRows node =
     [ResourceRow ''Capacity'' (cpu (capacity node)) (memory (capacity node))
        (shown (pods (capacity node))),
      ResourceRow ''Allocatable'' (cpu (allocatable node)) (memory (allocatable node))
        (shown (pods (allocatable node)))]
     @ (case metrics node of
          Some m \<Rightarrow> [ResourceRow ''Current Usage'' (metrics_cpu m) (metrics_memory m) ''-'']
        | None \<Rightarrow> [])"

text \<open>
  The content shown for a stored node: the general, system and address sections print
  the node's fields as they are; the label and pod sections appear only when non-empty.
\<close>

record DetailContent =
  content_node :: Node
  content_resources :: "ResourceRow list"
  content_labels :: "(string \<times> string) list option"
  content_pods :: "Pod list option"

definition nodeContent :: "Node \<Rightarrow> DetailContent" where
  "nodeContent node =
     \<lparr>content_node = node,
      content_resources = resourceRows node,
      content_labels = (if length (labels node) > 0 then Some (labels node) else None),
      content_pods =
        (case pods_details node of
           Some ps \<Rightarrow> if length ps > 0 then Some ps else None
         | None \<Rightarrow> None)\<rparr>"

text \<open>
  What the panel returns: nothing without a selection; otherwise the loading line, the
  error line (when the message is truthy) and the content of the stored node, each on
  its own condition.
\<close>

datatype DetailView =
    NoPanel
  | Panel bool "string option" "DetailContent option"

definition renderNodeDetail :: "string option \<Rightarrow> DetailState \<Rightarrow> DetailView" where
  "renderNodeDetail nodeName s =
     (if \<not> truthy nodeName then NoPanel
      else Panel (detail_loading s)
             (if truthy (detail_error s) then detail_error s else None)
             (map_option nodeContent (detail_node s)))"

section \<open>Aggregation layer\<close>

text \<open>
  The backend (\<^verbatim>\<open>cluster_analyzer.py\<close>, \<^verbatim>\<open>api.py\<close>) is not among the sources; its
  operations are written from the specification's sections 4.1 to 4.6.
\<close>

text \<open>
  Modelled from the spec: the closed two-variant role of sections 3 and 9, whose code is
  missing, and the string under which the frontend reads it.
\<close>

datatype Role = Master | Worker

definition roleName :: "Role \<Rightarrow> string" where
  "roleName r = (case r of Master \<Rightarrow> ''master'' | Worker \<Rightarrow> ''worker'')"

text \<open>
  Modelled from the spec: the role classifier \<^verbatim>\<open>ClassifyRole(labels)\<close> of section 4.2,
  whose code is missing. The recognised marker keys are configuration; the presence of
  any of them among the label keys, whatever its value, makes the node a master.
\<close>

definition ClassifyRole :: "string list \<Rightarrow> (string \<times> string) list \<Rightarrow> Role" where
  "ClassifyRole markerKeys lbls =
     (if list_ex (\<lambda>k. k \<in> set (map fst lbls)) markerKeys then Master else Worker)"

text \<open>
  Modelled from the spec: the metrics merger \<^verbatim>\<open>MergeMetrics(nodes, metricsByNode)\<close> of
  section 4.3, whose code is missing. An entry under the node's name is attached; without
  one the optional field stays unset.
\<close>

definition MergeMetrics :: "Node list \<Rightarrow> (string \<times> NodeMetrics) list \<Rightarrow> Node list" where
  "MergeMetrics ns metricsByNode = map (\<lambda>n. n\<lparr>metrics := map_of metricsByNode (name n)\<rparr>) ns"

text \<open>
  Modelled from the spec: the per-node pod count of sections 4.4 and 8, whose code is
  missing: the number of fetched pods whose owning node is the node's name.
\<close>

definition podsOnNode :: "Pod list \<Rightarrow> string \<Rightarrow> int" where
  "podsOnNode ps n = int (length (filter (\<lambda>p. pod_node p = n) ps))"

text \<open>
  Modelled from the spec: the resource kinds with a collection in the snapshot, the
  \<^verbatim>\<open>PartialFailure{kind, cause}\<close> record and the \<^verbatim>\<open>AggregationFailed\<close> error with its list
  of causes (sections 4.1 and 7), whose code is missing.
\<close>

datatype ResourceKind = NodesKind | PodsKind | NamespacesKind | DeploymentsKind | ServicesKind

record PartialFailure =
  failure_kind :: ResourceKind
  failure_cause :: string

datatype AggregationError = AggregationFailed "string list"

text \<open>
  Modelled from the spec: the outcome of each fetch of section 4.1, a cause or a
  collection, for the five resource fetches and the best-effort metrics fetch; the
  fetchers' code is missing. A failed fetch contributes the empty collection and one
  partial failure of its kind.
\<close>

record FetchResults =
  fetched_nodes :: "string + Node list"
  fetched_pods :: "string + Pod list"
  fetched_namespaces :: "string + Namespace list"
  fetched_deployments :: "string + Deployment list"
  fetched_services :: "string + Service list"
  fetched_metrics :: "string + (string \<times> NodeMetrics) list"

definition collection :: "string + 'a list \<Rightarrow> 'a list" where
  "collection r = (case r of Inl cause \<Rightarrow> [] | Inr xs \<Rightarrow> xs)"

definition failureOf :: "ResourceKind \<Rightarrow> string + 'a \<Rightarrow> PartialFailure list" where
  "failureOf k r =
     (case r of Inl cause \<Rightarrow> [\<lparr>failure_kind = k, failure_cause = cause\<rparr>] | Inr xs \<Rightarrow> [])"

definition partialFailures :: "FetchResults \<Rightarrow> PartialFailure list" where
  "partialFailures r =
     failureOf NodesKind (fetched_nodes r) @ failureOf PodsKind (fetched_pods r)
     @ failureOf NamespacesKind (fetched_namespaces r)
     @ failureOf DeploymentsKind (fetched_deployments r)
     @ failureOf ServicesKind (fetched_services r)"

text \<open>
  Modelled from the spec: the aggregator \<^verbatim>\<open>BuildSnapshot\<close> of section 4.1, whose code is
  missing, as a function of the fetch outcomes it joins. A failed resource fetch leaves
  its collection empty and records a partial failure; the call fails, with the causes,
  only when all five resource fetches failed. The metrics fetch is best-effort: its
  failure is not recorded and leaves every node without metrics. Each node gets its role
  from the classifier, its pod count from the fetched pods and its metrics from the
  merger.
\<close>

definition BuildSnapshot ::
  "string list \<Rightarrow> FetchResults \<Rightarrow> AggregationError + (ClusterData \<times> PartialFailure list)" where
  "BuildSnapshot markerKeys r =
     (let failures = partialFailures r;
          ps = collection (fetched_pods r);
          classified = map (\<lambda>n. n\<lparr>role := roleName (ClassifyRole markerKeys (labels n)),
                                   pods_on_node := podsOnNode ps (name n),
                                   metrics := None, pods_details := None\<rparr>)
                         (collection (fetched_nodes r))
      in if length failures = 5 then Inl (AggregationFailed (map failure_cause failures))
         else Inr (\<lparr>nodes = MergeMetrics classified (collection (fetched_metrics r)),
                    namespaces = collection (fetched_namespaces r),
                    pods_list = ps,
                    deployments = collection (fetched_deployments r),
                    services = collection (fetched_services r)\<rparr>, failures))"

text \<open>
  Modelled from the spec: the detail resolver \<^verbatim>\<open>ResolveNodeDetail(snapshot, nodeName)\<close>
  of section 4.6, whose code is missing (the frontend reaches it through
  \<^verbatim>\<open>fetchNodeDetails\<close>). It reads the snapshot only: the node of that name with the pods
  whose owning node is that name, or \<open>NotFound\<close>.
\<close>

datatype ResolveError = NotFound

definition ResolveNodeDetail :: "ClusterData \<Rightarrow> string \<Rightarrow> ResolveError + Node" where
  "ResolveNodeDetail snapshot nodeName =
     (case find (\<lambda>n. name n = nodeName) (nodes snapshot) of
        None \<Rightarrow> Inl NotFound
      | Some n \<Rightarrow>
          Inr (n\<lparr>pods_details := Some (filter (\<lambda>p. pod_node p = nodeName) (pods_list snapshot))\<rparr>))"

section \<open>Sample data\<close>

text \<open>
  Node lists: one master and two workers, and the same with metrics on the master; three
  workers alone; two masters of one name; a node whose role is the empty string; and such
  a node sharing the name of a master.
\<close>

definition clusterSmall :: "Node list" where
  "clusterSmall = [sampleNode ''m1'' ''master'' None, sampleNode ''w1'' ''worker'' None,
                   sampleNode ''w2'' ''worker'' None]"


definition clusterWorkers :: "Node list" where
  "clusterWorkers = [sampleNode ''w1'' ''worker'' None, sampleNode ''w2'' ''worker'' None,
                     sampleNode ''w3'' ''worker'' None]"

definition clusterDup :: "Node list" where
  "clusterDup = [sampleNode ''a'' ''master'' None, sampleNode ''a'' ''master'' None,
                 sampleNode ''w'' ''worker'' None]"



text \<open>
  A topology component that has loaded the small cluster; a detail request that knows
  the node \<open>w1\<close> and answers any other name with an error; and a panel that has loaded
  \<open>w1\<close>.
\<close>

definition loadedTopology :: TopologyState where
  "loadedTopology = loadClusterData (Inr clusterSmall) initialTopology"

definition sampleFetch :: "string \<Rightarrow> Thrown + Node" where
  "sampleFetch n =
     (if n = ''w1'' then Inr (sampleNode ''w1'' ''worker'' None)
      else Inl (ErrorObject ''Request failed with status code 404''))"

definition loadedDetail :: DetailState where
  "loadedDetail = nodeDetailEffect (Some ''w1'') sampleFetch initialDetail"

text \<open>
  Fetch outcomes: the pod fetch and the metrics fetch fail and the others succeed; and
  every resource fetch fails. A snapshot of the small cluster with one pod on each worker
  and one unscheduled pod.
\<close>

definition markerKeys :: "string list" where
  "markerKeys = [''node-role.kubernetes.io/control-plane'', ''node-role.kubernetes.io/master'']"

definition degradedResults :: FetchResults where
  "degradedResults =
     \<lparr>fetched_nodes = Inr clusterSmall, fetched_pods = Inl ''pods: timed out'',
      fetched_namespaces = Inr [], fetched_deployments = Inr [], fetched_services = Inr [],
      fetched_metrics = Inl ''metrics API not available''\<rparr>"

definition failedResults :: FetchResults where
  "failedResults =
     \<lparr>fetched_nodes = Inl ''nodes: unreachable'', fetched_pods = Inl ''pods: unreachable'',
      fetched_namespaces = Inl ''namespaces: unreachable'',
      fetched_deployments = Inl ''deployments: unreachable'',
      fetched_services = Inl ''services: unreachable'',
      fetched_metrics = Inl ''metrics API not available''\<rparr>"

definition samplePod :: "string \<Rightarrow> string \<Rightarrow> Pod" where
  "samplePod p n =
     \<lparr>pod_name = p, pod_namespace = ''default'', pod_uid = p, pod_node = n,
      pod_status = ''Running'', pod_ip = ''10.0.0.1'', pod_labels = [],
      containers = [\<lparr>container_name = ''app'', container_image = ''app:1'', ready = True\<rparr>],
      restart_count = 0\<rparr>"

definition sampleSnapshot :: ClusterData where
  "sampleSnapshot =
     \<lparr>nodes = clusterSmall, namespaces = [],
      pods_list = [samplePod ''p1'' ''w1'', samplePod ''p2'' ''w2'', samplePod ''p3'' []],
      deployments = [], services = []\<rparr>"


section \<open>Properties of the topology graph\<close>

lemma sampleNode_fields [simp]:
  "name (sampleNode n r m) = n"
  "role (sampleNode n r m) = r"
  "metrics (sampleNode n r m) = m"
  "status (sampleNode n r m) = ''Ready''"
  by (simp_all add: sampleNode_def)

lemma masterWorkerEdges_Nil [simp]: "masterWorkerEdges [] ws = []"
  by (simp add: masterWorkerEdges_def)

lemma masterWorkerEdges_Cons:
  "masterWorkerEdges (m # ms) ws =
     map (\<lambda>w. \<lparr>edge_from = name m, edge_to = name w\<rparr>) ws @ masterWorkerEdges ms ws"
  by (simp add: masterWorkerEdges_def)

lemma length_masterWorkerEdges:
  "length (masterWorkerEdges ms ws) = length ms * length ws"
  by (induction ms) (simp_all add: masterWorkerEdges_Cons)

lemma set_masterWorkerEdges:
  "set (masterWorkerEdges ms ws) =
     {\<lparr>edge_from = name m, edge_to = name w\<rparr> | m w. m \<in> set ms \<and> w \<in> set ws}"
  by (induction ms) (auto simp: masterWorkerEdges_Cons)

lemma distinct_masterWorkerEdges:
  assumes "distinct (map name ms)" and "distinct (map name ws)"
  shows "distinct (masterWorkerEdges ms ws)"
  using assms(1)
proof (induction ms)
  case Nil
  show ?case by simp
next
  case (Cons m ms)
  have row: "distinct (map (\<lambda>w. \<lparr>edge_from = name m, edge_to = name w\<rparr>) ws)"
    using assms(2) by (simp add: distinct_map inj_on_def)
  have apart: "set (map (\<lambda>w. \<lparr>edge_from = name m, edge_to = name w\<rparr>) ws)
                 \<inter> set (masterWorkerEdges ms ws) = {}"
    using Cons.prems by (auto simp: set_masterWorkerEdges)
  from Cons row apart show ?case
    by (simp add: masterWorkerEdges_Cons)
qed

lemma length_workerChainEdges: "length (workerChainEdges ws) = length ws - 1"
  by (simp add: workerChainEdges_def)

lemma nth_workerChainEdges:
  "i < length ws - 1 \<Longrightarrow>
     workerChainEdges ws ! i = \<lparr>edge_from = name (ws ! i), edge_to = name (ws ! Suc i)\<rparr>"
  by (simp add: workerChainEdges_def)

lemma workerChainEdges_zip:
  "workerChainEdges ws =
     map (\<lambda>(a, b). \<lparr>edge_from = name a, edge_to = name b\<rparr>) (zip ws (tl ws))"
  by (rule nth_equalityI) (simp_all add: workerChainEdges_def nth_tl)

lemma set_workerChainEdges:
  "e \<in> set (workerChainEdges ws) \<Longrightarrow>
     \<exists>i. Suc i < length ws \<and> e = \<lparr>edge_from = name (ws ! i), edge_to = name (ws ! Suc i)\<rparr>"
proof -
  assume "e \<in> set (workerChainEdges ws)"
  then obtain i where "i < length ws - 1"
    and "e = \<lparr>edge_from = name (ws ! i), edge_to = name (ws ! Suc i)\<rparr>"
    by (auto simp: workerChainEdges_def)
  then have "Suc i < length ws \<and> e = \<lparr>edge_from = name (ws ! i), edge_to = name (ws ! Suc i)\<rparr>"
    by simp
  then show ?thesis ..
qed

lemma visEdges_masters_workers:
  "masterNodes ns \<noteq> [] \<Longrightarrow> workerNodes ns \<noteq> [] \<Longrightarrow>
     visEdges ns = masterWorkerEdges (masterNodes ns) (workerNodes ns)"
  by (simp add: visEdges_def)

lemma visEdges_chain:
  "masterNodes ns = [] \<Longrightarrow> visEdges ns = workerChainEdges (workerNodes ns)"
  by (cases "workerNodes ns" rule: list.exhaust; cases "tl (workerNodes ns)")
     (auto simp: visEdges_def workerChainEdges_def Let_def)

lemma visEdges_no_workers: "workerNodes ns = [] \<Longrightarrow> visEdges ns = []"
  by (simp add: visEdges_def)

lemma visEdges_cases:
  obtains (star) "masterNodes ns \<noteq> []" "workerNodes ns \<noteq> []"
      "visEdges ns = masterWorkerEdges (masterNodes ns) (workerNodes ns)"
    | (chain) "masterNodes ns = []" "visEdges ns = workerChainEdges (workerNodes ns)"
    | (none) "masterNodes ns \<noteq> []" "workerNodes ns = []" "visEdges ns = []"
  using visEdges_masters_workers visEdges_chain visEdges_no_workers by blast

lemma names_determine_nodes:
  "distinct (map name ns) \<Longrightarrow> a \<in> set ns \<Longrightarrow> b \<in> set ns \<Longrightarrow> name a = name b \<Longrightarrow> a = b"
  by (auto simp: distinct_map dest: inj_onD)

lemma master_worker_names_apart:
  assumes "distinct (map name ns)"
    and "m \<in> set (masterNodes ns)" and "w \<in> set (workerNodes ns)"
  shows "name m \<noteq> name w"
proof
  assume "name m = name w"
  moreover have "m \<in> set ns" "w \<in> set ns" "role m = ''master''" "role w = ''worker''"
    using assms(2,3) by (simp_all add: masterNodes_def workerNodes_def)
  ultimately have "m = w"
    using assms(1) names_determine_nodes by blast
  with \<open>role m = ''master''\<close> \<open>role w = ''worker''\<close> show False by simp
qed

lemma distinct_worker_names:
  "distinct (map name ns) \<Longrightarrow> distinct (map name (workerNodes ns))"
  by (simp add: workerNodes_def distinct_map_filter)

lemma distinct_master_names:
  "distinct (map name ns) \<Longrightarrow> distinct (map name (masterNodes ns))"
  by (simp add: masterNodes_def distinct_map_filter)


text \<open>
  C1 (as amended). For every node list: with at least one master and at least one
  worker the edges are exactly the pairs of a master's name and a worker's name, in
  number \<open>|M| * |W|\<close>, and they are free of duplicates when the masters' names are
  pairwise distinct and the workers' names are pairwise distinct; with no master and
  more than one worker there are \<open>|W| - 1\<close> edges, the i-th from the i-th worker to the
  next one in input order; in every other case (among them at most one node in all, or
  no worker) there is no edge.
\<close>

theorem visEdges_three_cases:
  "(masterNodes ns \<noteq> [] \<and> workerNodes ns \<noteq> [] \<longrightarrow>
      length (visEdges ns) = length (masterNodes ns) * length (workerNodes ns)
      \<and> set (visEdges ns) =
          {\<lparr>edge_from = name m, edge_to = name w\<rparr> | m w.
             m \<in> set (masterNodes ns) \<and> w \<in> set (workerNodes ns)}
      \<and> (distinct (map name (masterNodes ns)) \<and> distinct (map name (workerNodes ns))
           \<longrightarrow> distinct (visEdges ns)))
   \<and> (masterNodes ns = [] \<and> length (workerNodes ns) > 1 \<longrightarrow>
      length (visEdges ns) = length (workerNodes ns) - 1
      \<and> (\<forall>i < length (workerNodes ns) - 1.
            visEdges ns ! i =
              \<lparr>edge_from = name (workerNodes ns ! i), edge_to = name (workerNodes ns ! Suc i)\<rparr>))
   \<and> (\<not> (masterNodes ns \<noteq> [] \<and> workerNodes ns \<noteq> [])
        \<and> \<not> (masterNodes ns = [] \<and> length (workerNodes ns) > 1) \<longrightarrow>
      visEdges ns = [])
   \<and> (length ns \<le> 1 \<longrightarrow> visEdges ns = [])
   \<and> (workerNodes ns = [] \<longrightarrow> visEdges ns = [])"
proof (intro conjI impI)
  assume mw: "masterNodes ns \<noteq> [] \<and> workerNodes ns \<noteq> []"
  then have eq: "visEdges ns = masterWorkerEdges (masterNodes ns) (workerNodes ns)"
    by (simp add: visEdges_masters_workers)
  show "length (visEdges ns) = length (masterNodes ns) * length (workerNodes ns)"
    by (simp add: eq length_masterWorkerEdges)
  show "set (visEdges ns) =
          {\<lparr>edge_from = name m, edge_to = name w\<rparr> | m w.
             m \<in> set (masterNodes ns) \<and> w \<in> set (workerNodes ns)}"
    by (simp add: eq set_masterWorkerEdges)
  assume "distinct (map name (masterNodes ns)) \<and> distinct (map name (workerNodes ns))"
  then show "distinct (visEdges ns)"
    by (simp add: eq distinct_masterWorkerEdges)
next
  assume ch: "masterNodes ns = [] \<and> 1 < length (workerNodes ns)"
  then have eq: "visEdges ns = workerChainEdges (workerNodes ns)"
    by (simp add: visEdges_chain)
  show "length (visEdges ns) = length (workerNodes ns) - 1"
    by (simp add: eq length_workerChainEdges)
  show "\<forall>i < length (workerNodes ns) - 1.
          visEdges ns ! i =
            \<lparr>edge_from = name (workerNodes ns ! i), edge_to = name (workerNodes ns ! Suc i)\<rparr>"
    by (simp add: eq nth_workerChainEdges)
next
  assume "\<not> (masterNodes ns \<noteq> [] \<and> workerNodes ns \<noteq> [])
        \<and> \<not> (masterNodes ns = [] \<and> length (workerNodes ns) > 1)"
  then show "visEdges ns = []"
    by (auto simp: visEdges_def Let_def)
next
  assume le: "length ns \<le> 1"
  show "visEdges ns = []"
  proof (cases ns)
    case Nil
    then show ?thesis by (simp add: visEdges_def masterNodes_def workerNodes_def)
  next
    case (Cons n rest)
    with le have "rest = []" by simp
    with Cons show ?thesis
      by (simp add: visEdges_def masterNodes_def workerNodes_def)
  qed
next
  assume "workerNodes ns = []"
  then show "visEdges ns = []" by (rule visEdges_no_workers)
qed

lemma clusterSmall_parts:
  "masterNodes clusterSmall = [sampleNode ''m1'' ''master'' None]"
  "workerNodes clusterSmall = [sampleNode ''w1'' ''worker'' None, sampleNode ''w2'' ''worker'' None]"
  by (simp_all add: clusterSmall_def masterNodes_def workerNodes_def)

lemma clusterWorkers_parts:
  "masterNodes clusterWorkers = []"
  "workerNodes clusterWorkers = clusterWorkers"
  by (simp_all add: clusterWorkers_def masterNodes_def workerNodes_def)

theorem visEdges_three_cases_witness:
  "masterNodes clusterSmall \<noteq> [] \<and> workerNodes clusterSmall \<noteq> []
   \<and> distinct (map name (masterNodes clusterSmall))
   \<and> distinct (map name (workerNodes clusterSmall))
   \<and> length (visEdges clusterSmall) = 2
   \<and> distinct (visEdges clusterSmall)
   \<and> masterNodes clusterWorkers = [] \<and> length (workerNodes clusterWorkers) > 1
   \<and> length (visEdges clusterWorkers) = 2
   \<and> visEdges clusterWorkers ! 0 = \<lparr>edge_from = ''w1'', edge_to = ''w2''\<rparr>
   \<and> visEdges clusterWorkers ! 1 = \<lparr>edge_from = ''w2'', edge_to = ''w3''\<rparr>
   \<and> length [sampleNode ''m1'' ''master'' None] \<le> 1
   \<and> visEdges [sampleNode ''m1'' ''master'' None] = []"
proof -
  have small: "masterNodes clusterSmall \<noteq> [] \<and> workerNodes clusterSmall \<noteq> []"
    and names: "distinct (map name (masterNodes clusterSmall))
                \<and> distinct (map name (workerNodes clusterSmall))"
    and sizes: "length (masterNodes clusterSmall) * length (workerNodes clusterSmall) = 2"
    by (simp_all add: clusterSmall_parts)
  have chain: "masterNodes clusterWorkers = [] \<and> length (workerNodes clusterWorkers) > 1"
    and three: "length (workerNodes clusterWorkers) - 1 = 2"
    and w0: "workerNodes clusterWorkers ! 0 = sampleNode ''w1'' ''worker'' None"
    and w1: "workerNodes clusterWorkers ! Suc 0 = sampleNode ''w2'' ''worker'' None"
    and w2: "workerNodes clusterWorkers ! Suc (Suc 0) = sampleNode ''w3'' ''worker'' None"
    by (simp_all add: clusterWorkers_parts) (simp_all add: clusterWorkers_def)
  have one: "length [sampleNode ''m1'' ''master'' None] \<le> 1" by simp
  from visEdges_three_cases [of clusterSmall] small names sizes
  have a: "length (visEdges clusterSmall) = 2 \<and> distinct (visEdges clusterSmall)"
    by simp
  from visEdges_three_cases [of clusterWorkers] chain three
  have b: "length (visEdges clusterWorkers) = 2
           \<and> (\<forall>i<2. visEdges clusterWorkers ! i =
                \<lparr>edge_from = name (workerNodes clusterWorkers ! i),
                 edge_to = name (workerNodes clusterWorkers ! Suc i)\<rparr>)"
    by simp
  then have b0: "visEdges clusterWorkers ! 0 = \<lparr>edge_from = ''w1'', edge_to = ''w2''\<rparr>"
    and b1: "visEdges clusterWorkers ! 1 = \<lparr>edge_from = ''w2'', edge_to = ''w3''\<rparr>"
    using w0 w1 w2 by (auto simp: numeral_2_eq_2)
  from visEdges_three_cases [of "[sampleNode ''m1'' ''master'' None]"] one
  have c: "visEdges [sampleNode ''m1'' ''master'' None] = []"
    by blast
  from small names a chain b b0 b1 one c show ?thesis by simp
qed

text \<open>
  The claim as stated fails for a node list with two masters of one name: the two edges
  to the worker are the same pair of endpoints.
\<close>

theorem visEdges_duplicate_counterexample:
  "masterNodes clusterDup \<noteq> [] \<and> workerNodes clusterDup \<noteq> []
   \<and> visEdges clusterDup =
       [\<lparr>edge_from = ''a'', edge_to = ''w''\<rparr>, \<lparr>edge_from = ''a'', edge_to = ''w''\<rparr>]
   \<and> \<not> distinct (visEdges clusterDup)"
  by (simp add: clusterDup_def visEdges_def masterNodes_def workerNodes_def
      masterWorkerEdges_def)

text \<open>
  C2. For a node list with pairwise distinct names: no edge joins a node to itself; when
  a master exists, every edge goes from the name of a master to the name of a worker,
  and its source is no worker and its target no master; without masters the edges are
  the chain of consecutive workers, which passes each worker once.
\<close>

theorem edges_between_tiers:
  assumes "distinct (map name ns)"
  shows "(\<forall>e \<in> set (visEdges ns). edge_from e \<noteq> edge_to e)
   \<and> (masterNodes ns \<noteq> [] \<longrightarrow>
        (\<forall>e \<in> set (visEdges ns).
           edge_from e \<in> name ` set (masterNodes ns)
           \<and> edge_to e \<in> name ` set (workerNodes ns)
           \<and> edge_from e \<notin> name ` set (workerNodes ns)
           \<and> edge_to e \<notin> name ` set (masterNodes ns)))
   \<and> (masterNodes ns = [] \<longrightarrow>
        visEdges ns =
          map (\<lambda>(a, b). \<lparr>edge_from = name a, edge_to = name b\<rparr>)
            (zip (workerNodes ns) (tl (workerNodes ns)))
        \<and> distinct (map name (workerNodes ns)))"
proof (intro conjI impI ballI)
  fix e assume e: "e \<in> set (visEdges ns)"
  show "edge_from e \<noteq> edge_to e"
  proof (cases ns rule: visEdges_cases)
    case star
    with e assms show ?thesis
      by (auto simp: set_masterWorkerEdges dest: master_worker_names_apart)
  next
    case chain
    with e obtain i where i: "Suc i < length (workerNodes ns)"
      and ei: "e = \<lparr>edge_from = name (workerNodes ns ! i),
                     edge_to = name (workerNodes ns ! Suc i)\<rparr>"
      using set_workerChainEdges by metis
    have "distinct (map name (workerNodes ns))"
      using assms by (rule distinct_worker_names)
    with i have "map name (workerNodes ns) ! i \<noteq> map name (workerNodes ns) ! Suc i"
      by (simp add: nth_eq_iff_index_eq del: nth_map)
    with i ei show ?thesis by simp
  next
    case none
    with e show ?thesis by simp
  qed
next
  fix e assume m: "masterNodes ns \<noteq> []" and e: "e \<in> set (visEdges ns)"
  have star: "workerNodes ns \<noteq> []"
    using e visEdges_no_workers by fastforce
  with m e obtain a b where a: "a \<in> set (masterNodes ns)" and b: "b \<in> set (workerNodes ns)"
    and eab: "e = \<lparr>edge_from = name a, edge_to = name b\<rparr>"
    by (auto simp: visEdges_masters_workers set_masterWorkerEdges)
  from a b eab show "edge_from e \<in> name ` set (masterNodes ns)"
    and "edge_to e \<in> name ` set (workerNodes ns)"
    by simp_all
  from a eab assms show "edge_from e \<notin> name ` set (workerNodes ns)"
    by (auto dest: master_worker_names_apart)
  from b eab assms show "edge_to e \<notin> name ` set (masterNodes ns)"
    by (auto dest: master_worker_names_apart)
next
  assume "masterNodes ns = []"
  then show "visEdges ns =
          map (\<lambda>(a, b). \<lparr>edge_from = name a, edge_to = name b\<rparr>)
            (zip (workerNodes ns) (tl (workerNodes ns)))"
    by (simp add: visEdges_chain workerChainEdges_zip)
next
  show "distinct (map name (workerNodes ns))"
    using assms by (rule distinct_worker_names)
qed

theorem edges_between_tiers_witness:
  "distinct (map name clusterSmall)
   \<and> masterNodes clusterSmall \<noteq> []
   \<and> \<lparr>edge_from = ''m1'', edge_to = ''w2''\<rparr> \<in> set (visEdges clusterSmall)
   \<and> ''m1'' \<in> name ` set (masterNodes clusterSmall)
   \<and> ''w2'' \<in> name ` set (workerNodes clusterSmall)
   \<and> ''m1'' \<notin> name ` set (workerNodes clusterSmall)
   \<and> ''w2'' \<notin> name ` set (masterNodes clusterSmall)
   \<and> distinct (map name clusterWorkers)
   \<and> masterNodes clusterWorkers = []
   \<and> visEdges clusterWorkers =
       [\<lparr>edge_from = ''w1'', edge_to = ''w2''\<rparr>, \<lparr>edge_from = ''w2'', edge_to = ''w3''\<rparr>]"
proof -
  have d1: "distinct (map name clusterSmall)" by (simp add: clusterSmall_def)
  have m1: "masterNodes clusterSmall \<noteq> []" by (simp add: clusterSmall_parts)
  have e1: "\<lparr>edge_from = ''m1'', edge_to = ''w2''\<rparr> \<in> set (visEdges clusterSmall)"
    by (simp add: visEdges_def clusterSmall_parts masterWorkerEdges_def)
  have d2: "distinct (map name clusterWorkers)" by (simp add: clusterWorkers_def)
  have m2: "masterNodes clusterWorkers = []" by (simp add: clusterWorkers_parts)
  note tiers = mp [OF edges_between_tiers [OF d1, THEN conjunct2, THEN conjunct1] m1]
  from bspec [OF tiers e1]
  have a: "''m1'' \<in> name ` set (masterNodes clusterSmall)
           \<and> ''w2'' \<in> name ` set (workerNodes clusterSmall)
           \<and> ''m1'' \<notin> name ` set (workerNodes clusterSmall)
           \<and> ''w2'' \<notin> name ` set (masterNodes clusterSmall)"
    by simp
  note chain = mp [OF edges_between_tiers [OF d2, THEN conjunct2, THEN conjunct2] m2]
  from chain [THEN conjunct1]
  have b: "visEdges clusterWorkers =
       [\<lparr>edge_from = ''w1'', edge_to = ''w2''\<rparr>, \<lparr>edge_from = ''w2'', edge_to = ''w3''\<rparr>]"
    by (simp add: clusterWorkers_parts) (simp add: clusterWorkers_def)
  from d1 m1 e1 a d2 m2 b show ?thesis by (intro conjI) ((elim conjE)?, assumption)+
qed


lemma vis_id_visNode [simp]: "vis_id (visNode n) = name n"
  by (simp add: visNode_def Let_def)

















section \<open>Properties of the views\<close>

lemma loadClusterData_failed:
  "loadClusterData (Inl err) s =
     s\<lparr>topo_refreshing := False,
       topo_error := Some (errorMessage err ''Failed to load cluster data''),
       topo_loading := False\<rparr>"
  by (simp add: loadClusterData_def)

lemma loadClusterData_fetched:
  "loadClusterData (Inr fetched) s =
     s\<lparr>topo_refreshing := False, topo_error := None, topo_nodes := fetched,
       topo_loading := False\<rparr>"
  by (simp add: loadClusterData_def)

text \<open>
  C8 (as amended). A fetch error leaves the node list in the state of the topology
  component, but the view it returns then is the error message alone, for every non-empty
  message; the node list is rendered while no error is set: in a settled state without an
  error, and again after the next fetch that succeeds with nodes.
\<close>

theorem fetch_error_replaces_view:
  "topo_nodes (loadClusterData (Inl err) s) = topo_nodes s
   \<and> topo_error (loadClusterData (Inl err) s)
       = Some (errorMessage err ''Failed to load cluster data'')
   \<and> (errorMessage err ''Failed to load cluster data'' \<noteq> [] \<longrightarrow>
        renderTopology (loadClusterData (Inl err) s)
          = ErrorMessage (errorMessage err ''Failed to load cluster data''))
   \<and> (topo_nodes s \<noteq> [] \<and> \<not> topo_loading s \<and> \<not> truthy (topo_error s) \<longrightarrow>
        renderTopology s = TopologyPage (infoBar (topo_nodes s)) (topo_nodes s))
   \<and> (fetched \<noteq> [] \<longrightarrow>
        renderTopology (loadClusterData (Inr fetched) (loadClusterData (Inl err) s))
          = TopologyPage (infoBar fetched) fetched)"
  by (simp add: loadClusterData_failed loadClusterData_fetched renderTopology_def truthy_def)

lemma loadedTopology_eq:
  "loadedTopology =
     \<lparr>topo_loading = False, topo_error = None, topo_nodes = clusterSmall,
      topo_refreshing = False\<rparr>"
  by (simp add: loadedTopology_def loadClusterData_fetched initialTopology_def)

lemma clusterSmall_not_Nil: "clusterSmall \<noteq> []"
  by (simp add: clusterSmall_def)

theorem fetch_error_replaces_view_witness:
  "errorMessage (ErrorObject ''Network Error'') ''Failed to load cluster data'' \<noteq> []
   \<and> topo_nodes loadedTopology \<noteq> [] \<and> \<not> topo_loading loadedTopology
   \<and> \<not> truthy (topo_error loadedTopology)
   \<and> renderTopology loadedTopology = TopologyPage (infoBar clusterSmall) clusterSmall
   \<and> topo_nodes (loadClusterData (Inl (ErrorObject ''Network Error'')) loadedTopology)
       = clusterSmall
   \<and> renderTopology (loadClusterData (Inl (ErrorObject ''Network Error'')) loadedTopology)
       = ErrorMessage ''Network Error''
   \<and> renderTopology (loadClusterData (Inr clusterWorkers)
        (loadClusterData (Inl (ErrorObject ''Network Error'')) loadedTopology))
       = TopologyPage (infoBar clusterWorkers) clusterWorkers"
proof -
  have msg: "errorMessage (ErrorObject ''Network Error'') ''Failed to load cluster data''
               = ''Network Error''"
    by (simp add: errorMessage_def)
  have settled: "topo_nodes loadedTopology \<noteq> [] \<and> \<not> topo_loading loadedTopology
                 \<and> \<not> truthy (topo_error loadedTopology)"
    by (simp add: loadedTopology_eq clusterSmall_not_Nil truthy_def)
  have kept: "topo_nodes loadedTopology = clusterSmall"
    by (simp add: loadedTopology_eq)
  have some: "clusterWorkers \<noteq> []" by (simp add: clusterWorkers_def)
  from fetch_error_replaces_view
    [of "ErrorObject ''Network Error''" loadedTopology clusterWorkers]
    msg settled kept some
  show ?thesis by simp
qed

text \<open>
  The claim as stated fails: the component that renders the small cluster returns, after
  a refresh that fails, the error message and nothing of the node list it still holds.
\<close>

theorem fetch_error_hides_nodes_counterexample:
  "topo_nodes loadedTopology = clusterSmall
   \<and> clusterSmall \<noteq> []
   \<and> renderTopology loadedTopology = TopologyPage (infoBar clusterSmall) clusterSmall
   \<and> renderTopology (loadClusterData (Inl (ErrorObject ''Network Error'')) loadedTopology)
       = ErrorMessage ''Network Error''
   \<and> ErrorMessage ''Network Error'' \<noteq> TopologyPage (infoBar clusterSmall) clusterSmall"
  by (simp add: loadedTopology_eq loadClusterData_failed renderTopology_def truthy_def
      errorMessage_def clusterSmall_not_Nil)

lemma nodeDetailEffect_no_selection:
  "\<not> truthy sel \<Longrightarrow> nodeDetailEffect sel f s = s\<lparr>detail_node := None\<rparr>"
  by (simp add: nodeDetailEffect_def)

lemma nodeDetailEffect_failed:
  "n \<noteq> [] \<Longrightarrow> f n = Inl err \<Longrightarrow>
     nodeDetailEffect (Some n) f s =
       s\<lparr>detail_loading := False,
         detail_error := Some (errorMessage err ''Failed to load node details'')\<rparr>"
  by (simp add: nodeDetailEffect_def truthy_def)

lemma nodeDetailEffect_loaded:
  "n \<noteq> [] \<Longrightarrow> f n = Inr d \<Longrightarrow>
     nodeDetailEffect (Some n) f s =
       s\<lparr>detail_loading := False, detail_error := None, detail_node := Some d\<rparr>"
  by (simp add: nodeDetailEffect_def truthy_def)

lemma nodeDetailEffect_keeps_some:
  assumes "truthy sel" and "detail_node s \<noteq> None"
  shows "detail_node (nodeDetailEffect sel f s) \<noteq> None"
proof -
  from assms(1) obtain n where sel: "sel = Some n" and n: "n \<noteq> []"
    by (auto simp: truthy_def split: option.splits)
  show ?thesis
  proof (cases "f n")
    case (Inl err)
    with n assms(2) show ?thesis by (simp add: sel nodeDetailEffect_failed)
  next
    case (Inr d)
    with n show ?thesis by (simp add: sel nodeDetailEffect_loaded)
  qed
qed

text \<open>
  C10 (as amended). A detail fetch that fails leaves the stored node as it was: when the
  selection changes to a name whose fetch fails, the panel stores the error message, ends
  loading and keeps rendering the content of the node loaded before. The stored node is
  cleared only when the selection is null or the empty string (the two values the guard
  \<^verbatim>\<open>!nodeName\<close> lets through), and then always; never on a fetch failure.
\<close>

theorem failed_detail_fetch_keeps_node:
  assumes "n \<noteq> []" and "fetchNodeDetails n = Inl err"
  shows "detail_node (nodeDetailEffect (Some n) fetchNodeDetails s) = detail_node s
   \<and> detail_error (nodeDetailEffect (Some n) fetchNodeDetails s)
       = Some (errorMessage err ''Failed to load node details'')
   \<and> \<not> detail_loading (nodeDetailEffect (Some n) fetchNodeDetails s)
   \<and> renderNodeDetail (Some n) (nodeDetailEffect (Some n) fetchNodeDetails s)
       = Panel False
           (if errorMessage err ''Failed to load node details'' \<noteq> []
            then Some (errorMessage err ''Failed to load node details'') else None)
           (map_option nodeContent (detail_node s))
   \<and> (\<forall>sel f. detail_node s \<noteq> None \<and> detail_node (nodeDetailEffect sel f s) = None
         \<longrightarrow> sel = None \<or> sel = Some [])
   \<and> (\<forall>f. detail_node (nodeDetailEffect None f s) = None
         \<and> detail_node (nodeDetailEffect (Some []) f s) = None)"
proof (intro conjI allI impI)
  note failed = nodeDetailEffect_failed [of n fetchNodeDetails err s, OF assms]
  show "detail_node (nodeDetailEffect (Some n) fetchNodeDetails s) = detail_node s"
    by (simp add: failed)
  show "detail_error (nodeDetailEffect (Some n) fetchNodeDetails s)
       = Some (errorMessage err ''Failed to load node details'')"
    by (simp add: failed)
  show "\<not> detail_loading (nodeDetailEffect (Some n) fetchNodeDetails s)"
    by (simp add: failed)
  show "renderNodeDetail (Some n) (nodeDetailEffect (Some n) fetchNodeDetails s)
       = Panel False
           (if errorMessage err ''Failed to load node details'' \<noteq> []
            then Some (errorMessage err ''Failed to load node details'') else None)
           (map_option nodeContent (detail_node s))"
    using assms(1) by (simp add: failed renderNodeDetail_def truthy_def)
next
  fix sel f
  assume a: "detail_node s \<noteq> None \<and> detail_node (nodeDetailEffect sel f s) = None"
  then have "\<not> truthy sel"
    using nodeDetailEffect_keeps_some by blast
  then show "sel = None \<or> sel = Some []"
    by (simp add: truthy_def split: option.splits)
next
  fix f
  show "detail_node (nodeDetailEffect None f s) = None"
    by (simp add: nodeDetailEffect_no_selection truthy_def)
  show "detail_node (nodeDetailEffect (Some []) f s) = None"
    by (simp add: nodeDetailEffect_no_selection truthy_def)
qed

lemma loadedDetail_eq:
  "loadedDetail =
     \<lparr>detail_node = Some (sampleNode ''w1'' ''worker'' None), detail_loading = False,
      detail_error = None\<rparr>"
  by (simp add: loadedDetail_def nodeDetailEffect_def truthy_def sampleFetch_def
      initialDetail_def)

theorem failed_detail_fetch_keeps_node_witness:
  "''ghost'' \<noteq> []
   \<and> sampleFetch ''ghost'' = Inl (ErrorObject ''Request failed with status code 404'')
   \<and> detail_node loadedDetail = Some (sampleNode ''w1'' ''worker'' None)
   \<and> detail_node (nodeDetailEffect (Some ''ghost'') sampleFetch loadedDetail)
       = Some (sampleNode ''w1'' ''worker'' None)
   \<and> renderNodeDetail (Some ''ghost'') (nodeDetailEffect (Some ''ghost'') sampleFetch loadedDetail)
       = Panel False (Some ''Request failed with status code 404'')
           (Some (nodeContent (sampleNode ''w1'' ''worker'' None)))
   \<and> detail_node (nodeDetailEffect None sampleFetch loadedDetail) = None"
proof -
  have name: "''ghost'' \<noteq> []" by simp
  have fetch: "sampleFetch ''ghost'' = Inl (ErrorObject ''Request failed with status code 404'')"
    by (simp add: sampleFetch_def)
  have before: "detail_node loadedDetail = Some (sampleNode ''w1'' ''worker'' None)"
    by (simp add: loadedDetail_eq)
  have msg: "errorMessage (ErrorObject ''Request failed with status code 404'')
               ''Failed to load node details'' = ''Request failed with status code 404''"
    by (simp add: errorMessage_def)
  from failed_detail_fetch_keeps_node
    [of "''ghost''" sampleFetch "ErrorObject ''Request failed with status code 404''"
      loadedDetail, OF name fetch]
    name fetch before msg
  show ?thesis by simp
qed

text \<open>
  The claim as stated fails at the empty string: it is a selection other than null, no
  fetch is made for it, and the stored node is cleared.
\<close>

theorem empty_selection_clears_counterexample:
  "detail_node loadedDetail = Some (sampleNode ''w1'' ''worker'' None)
   \<and> Some [] \<noteq> (None :: string option)
   \<and> detail_node (nodeDetailEffect (Some []) sampleFetch loadedDetail) = None"
  by (simp add: loadedDetail_eq nodeDetailEffect_def truthy_def)


section \<open>Properties of the aggregation layer\<close>

lemma length_failureOf: "length (failureOf k r) = (if isl r then 1 else 0)"
  by (simp add: failureOf_def split: sum.splits)

lemma all_failed_iff:
  "length (partialFailures r) = 5 \<longleftrightarrow>
     isl (fetched_nodes r) \<and> isl (fetched_pods r) \<and> isl (fetched_namespaces r)
     \<and> isl (fetched_deployments r) \<and> isl (fetched_services r)"
  by (simp add: partialFailures_def length_failureOf)

lemma failureOf_recorded: "r = Inl c \<Longrightarrow> failureOf k r = [\<lparr>failure_kind = k, failure_cause = c\<rparr>]"
  by (simp add: failureOf_def)

lemma collection_failed [simp]: "collection (Inl c) = []"
  by (simp add: collection_def)

lemma collection_fetched [simp]: "collection (Inr xs) = xs"
  by (simp add: collection_def)

lemma BuildSnapshot_failed:
  "length (partialFailures r) = 5 \<Longrightarrow>
     BuildSnapshot ks r = Inl (AggregationFailed (map failure_cause (partialFailures r)))"
  by (simp add: BuildSnapshot_def Let_def)

lemma BuildSnapshot_built:
  "length (partialFailures r) \<noteq> 5 \<Longrightarrow>
     BuildSnapshot ks r =
       Inr (\<lparr>nodes = MergeMetrics
                 (map (\<lambda>n. n\<lparr>role := roleName (ClassifyRole ks (labels n)),
                              pods_on_node := podsOnNode (collection (fetched_pods r)) (name n),
                              metrics := None, pods_details := None\<rparr>)
                   (collection (fetched_nodes r)))
                 (collection (fetched_metrics r)),
              namespaces = collection (fetched_namespaces r),
              pods_list = collection (fetched_pods r),
              deployments = collection (fetched_deployments r),
              services = collection (fetched_services r)\<rparr>, partialFailures r)"
  by (simp add: BuildSnapshot_def Let_def)

lemma partialFailures_metrics [simp]:
  "partialFailures (r\<lparr>fetched_metrics := m\<rparr>) = partialFailures r"
  by (simp add: partialFailures_def)

text \<open>
  C4. The aggregator returns a snapshot whenever at least one of the five resource fetches
  succeeded. In the snapshot, the collection of a resource kind whose fetch failed is
  empty and a partial failure with that kind and the cause is recorded; the collection of
  a kind whose fetch succeeded is what was fetched. The call fails, with
  \<open>AggregationFailed\<close> and the causes, exactly when all five resource fetches failed.
\<close>

theorem BuildSnapshot_partial_failure:
  "(\<not> (isl (fetched_nodes r) \<and> isl (fetched_pods r) \<and> isl (fetched_namespaces r)
         \<and> isl (fetched_deployments r) \<and> isl (fetched_services r)) \<longrightarrow>
      (\<exists>snap fs. BuildSnapshot ks r = Inr (snap, fs)
         \<and> fs = partialFailures r
         \<and> (\<forall>c. fetched_nodes r = Inl c \<longrightarrow>
               nodes snap = [] \<and> \<lparr>failure_kind = NodesKind, failure_cause = c\<rparr> \<in> set fs)
         \<and> (\<forall>c. fetched_pods r = Inl c \<longrightarrow>
               pods_list snap = [] \<and> \<lparr>failure_kind = PodsKind, failure_cause = c\<rparr> \<in> set fs)
         \<and> (\<forall>c. fetched_namespaces r = Inl c \<longrightarrow>
               namespaces snap = []
               \<and> \<lparr>failure_kind = NamespacesKind, failure_cause = c\<rparr> \<in> set fs)
         \<and> (\<forall>c. fetched_deployments r = Inl c \<longrightarrow>
               deployments snap = []
               \<and> \<lparr>failure_kind = DeploymentsKind, failure_cause = c\<rparr> \<in> set fs)
         \<and> (\<forall>c. fetched_services r = Inl c \<longrightarrow>
               services snap = []
               \<and> \<lparr>failure_kind = ServicesKind, failure_cause = c\<rparr> \<in> set fs)
         \<and> (\<forall>xs. fetched_nodes r = Inr xs \<longrightarrow> map name (nodes snap) = map name xs)
         \<and> (\<forall>xs. fetched_pods r = Inr xs \<longrightarrow> pods_list snap = xs)
         \<and> (\<forall>xs. fetched_namespaces r = Inr xs \<longrightarrow> namespaces snap = xs)
         \<and> (\<forall>xs. fetched_deployments r = Inr xs \<longrightarrow> deployments snap = xs)
         \<and> (\<forall>xs. fetched_services r = Inr xs \<longrightarrow> services snap = xs)))
   \<and> (isl (BuildSnapshot ks r) \<longleftrightarrow>
        isl (fetched_nodes r) \<and> isl (fetched_pods r) \<and> isl (fetched_namespaces r)
        \<and> isl (fetched_deployments r) \<and> isl (fetched_services r))
   \<and> (\<forall>e. BuildSnapshot ks r = Inl e \<longrightarrow>
         e = AggregationFailed (map failure_cause (partialFailures r))
         \<and> length (partialFailures r) = 5)"
proof (intro conjI impI)
  assume some: "\<not> (isl (fetched_nodes r) \<and> isl (fetched_pods r) \<and> isl (fetched_namespaces r)
         \<and> isl (fetched_deployments r) \<and> isl (fetched_services r))"
  then have not5: "length (partialFailures r) \<noteq> 5"
    by (simp add: all_failed_iff)
  note built = BuildSnapshot_built [OF not5, of ks]
  have rec: "\<And>k x c. x = Inl c \<Longrightarrow> set (failureOf k x) = {\<lparr>failure_kind = k, failure_cause = c\<rparr>}"
    by (simp add: failureOf_recorded)
  show "\<exists>snap fs. BuildSnapshot ks r = Inr (snap, fs)
         \<and> fs = partialFailures r
         \<and> (\<forall>c. fetched_nodes r = Inl c \<longrightarrow>
               nodes snap = [] \<and> \<lparr>failure_kind = NodesKind, failure_cause = c\<rparr> \<in> set fs)
         \<and> (\<forall>c. fetched_pods r = Inl c \<longrightarrow>
               pods_list snap = [] \<and> \<lparr>failure_kind = PodsKind, failure_cause = c\<rparr> \<in> set fs)
         \<and> (\<forall>c. fetched_namespaces r = Inl c \<longrightarrow>
               namespaces snap = []
               \<and> \<lparr>failure_kind = NamespacesKind, failure_cause = c\<rparr> \<in> set fs)
         \<and> (\<forall>c. fetched_deployments r = Inl c \<longrightarrow>
               deployments snap = []
               \<and> \<lparr>failure_kind = DeploymentsKind, failure_cause = c\<rparr> \<in> set fs)
         \<and> (\<forall>c. fetched_services r = Inl c \<longrightarrow>
               services snap = []
               \<and> \<lparr>failure_kind = ServicesKind, failure_cause = c\<rparr> \<in> set fs)
         \<and> (\<forall>xs. fetched_nodes r = Inr xs \<longrightarrow> map name (nodes snap) = map name xs)
         \<and> (\<forall>xs. fetched_pods r = Inr xs \<longrightarrow> pods_list snap = xs)
         \<and> (\<forall>xs. fetched_namespaces r = Inr xs \<longrightarrow> namespaces snap = xs)
         \<and> (\<forall>xs. fetched_deployments r = Inr xs \<longrightarrow> deployments snap = xs)
         \<and> (\<forall>xs. fetched_services r = Inr xs \<longrightarrow> services snap = xs)"
    unfolding built
    by (auto simp: partialFailures_def rec MergeMetrics_def comp_def)
next
  show "isl (BuildSnapshot ks r) \<longleftrightarrow>
        isl (fetched_nodes r) \<and> isl (fetched_pods r) \<and> isl (fetched_namespaces r)
        \<and> isl (fetched_deployments r) \<and> isl (fetched_services r)"
  proof (cases "length (partialFailures r) = 5")
    case True
    then show ?thesis
      by (simp add: BuildSnapshot_failed) (simp add: all_failed_iff)
  next
    case False
    then show ?thesis
      by (simp add: BuildSnapshot_built) (simp add: all_failed_iff)
  qed
next
  show "\<forall>e. BuildSnapshot ks r = Inl e \<longrightarrow>
         e = AggregationFailed (map failure_cause (partialFailures r))
         \<and> length (partialFailures r) = 5"
  proof (cases "length (partialFailures r) = 5")
    case True
    then show ?thesis by (auto simp: BuildSnapshot_failed)
  next
    case False
    then show ?thesis by (simp add: BuildSnapshot_built)
  qed
qed

lemma degraded_outcomes:
  "\<not> (isl (fetched_nodes degradedResults) \<and> isl (fetched_pods degradedResults)
       \<and> isl (fetched_namespaces degradedResults) \<and> isl (fetched_deployments degradedResults)
       \<and> isl (fetched_services degradedResults))"
  "fetched_pods degradedResults = Inl ''pods: timed out''"
  "fetched_nodes degradedResults = Inr clusterSmall"
  "fetched_metrics degradedResults = Inl ''metrics API not available''"
  by (simp_all add: degradedResults_def)

lemma failed_outcomes:
  "isl (fetched_nodes failedResults) \<and> isl (fetched_pods failedResults)
   \<and> isl (fetched_namespaces failedResults) \<and> isl (fetched_deployments failedResults)
   \<and> isl (fetched_services failedResults)"
  by (simp add: failedResults_def)

theorem BuildSnapshot_partial_failure_witness:
  "\<not> (isl (fetched_nodes degradedResults) \<and> isl (fetched_pods degradedResults)
       \<and> isl (fetched_namespaces degradedResults) \<and> isl (fetched_deployments degradedResults)
       \<and> isl (fetched_services degradedResults))
   \<and> fetched_pods degradedResults = Inl ''pods: timed out''
   \<and> fetched_nodes degradedResults = Inr clusterSmall
   \<and> (\<exists>snap fs. BuildSnapshot markerKeys degradedResults = Inr (snap, fs)
         \<and> pods_list snap = []
         \<and> \<lparr>failure_kind = PodsKind, failure_cause = ''pods: timed out''\<rparr> \<in> set fs
         \<and> map name (nodes snap) = [''m1'', ''w1'', ''w2''])
   \<and> isl (BuildSnapshot markerKeys failedResults)"
proof -
  note ok = mp [OF BuildSnapshot_partial_failure [of degradedResults markerKeys, THEN conjunct1]
    degraded_outcomes(1)]
  from ok obtain snap fs where built: "BuildSnapshot markerKeys degradedResults = Inr (snap, fs)"
    and pods: "\<forall>c. fetched_pods degradedResults = Inl c \<longrightarrow>
               pods_list snap = [] \<and> \<lparr>failure_kind = PodsKind, failure_cause = c\<rparr> \<in> set fs"
    and nodes: "\<forall>xs. fetched_nodes degradedResults = Inr xs \<longrightarrow> map name (nodes snap) = map name xs"
    by (elim exE conjE)
  note p = mp [OF spec [OF pods] degraded_outcomes(2)]
  from mp [OF spec [OF nodes] degraded_outcomes(3)]
  have n: "map name (nodes snap) = [''m1'', ''w1'', ''w2'']"
    by (simp add: clusterSmall_def)
  from built p n
  have ex: "\<exists>snap fs. BuildSnapshot markerKeys degradedResults = Inr (snap, fs)
         \<and> pods_list snap = []
         \<and> \<lparr>failure_kind = PodsKind, failure_cause = ''pods: timed out''\<rparr> \<in> set fs
         \<and> map name (nodes snap) = [''m1'', ''w1'', ''w2'']"
    by (intro exI conjI) ((elim conjE)?, assumption)+
  note bad = iffD2 [OF BuildSnapshot_partial_failure
    [of failedResults markerKeys, THEN conjunct2, THEN conjunct1] failed_outcomes]
  from degraded_outcomes(1,2,3) ex bad show ?thesis
    by (intro conjI) ((elim conjE)?, assumption)+
qed

text \<open>
  C5. The classifier gives \<open>Master\<close> exactly when one of the configured marker keys is a
  key of the label mapping, whatever the value under it (the empty string included), and
  \<open>Worker\<close> otherwise; it is a function defined on every label mapping, the empty one
  included, where it gives \<open>Worker\<close>.
\<close>

theorem ClassifyRole_marker_iff:
  "(ClassifyRole ks lbls = Master \<longleftrightarrow> (\<exists>k \<in> set ks. k \<in> fst ` set lbls))
   \<and> (ClassifyRole ks lbls = Worker \<longleftrightarrow> \<not> (\<exists>k \<in> set ks. k \<in> fst ` set lbls))
   \<and> (k \<in> set ks \<and> (k, v) \<in> set lbls \<longrightarrow> ClassifyRole ks lbls = Master)
   \<and> (k \<in> set ks \<and> (k, []) \<in> set lbls \<longrightarrow> ClassifyRole ks lbls = Master)
   \<and> ClassifyRole ks [] = Worker
   \<and> (roleName (ClassifyRole ks lbls) = ''master'' \<longleftrightarrow> (\<exists>k \<in> set ks. k \<in> fst ` set lbls))"
  by (force simp: ClassifyRole_def roleName_def list_ex_iff)

theorem ClassifyRole_marker_iff_witness:
  "''node-role.kubernetes.io/control-plane'' \<in> set markerKeys
   \<and> (''node-role.kubernetes.io/control-plane'', [])
       \<in> set [(''kubernetes.io/os'', ''linux''), (''node-role.kubernetes.io/control-plane'', [])]
   \<and> ClassifyRole markerKeys
        [(''kubernetes.io/os'', ''linux''), (''node-role.kubernetes.io/control-plane'', [])]
       = Master
   \<and> ClassifyRole markerKeys [(''kubernetes.io/os'', ''linux'')] = Worker"
proof -
  have key: "''node-role.kubernetes.io/control-plane'' \<in> set markerKeys"
    by (simp add: markerKeys_def)
  have lbl: "(''node-role.kubernetes.io/control-plane'', [])
       \<in> set [(''kubernetes.io/os'', ''linux''), (''node-role.kubernetes.io/control-plane'', [])]"
    by simp
  have none: "\<not> (\<exists>k \<in> set markerKeys. k \<in> fst ` set [(''kubernetes.io/os'', ''linux'')])"
    by (simp add: markerKeys_def)
  note c = ClassifyRole_marker_iff [of markerKeys
    "[(''kubernetes.io/os'', ''linux''), (''node-role.kubernetes.io/control-plane'', [])]"
    "''node-role.kubernetes.io/control-plane''" "[]"]
  note a = mp [OF c [THEN conjunct2, THEN conjunct2, THEN conjunct1] conjI [OF key lbl]]
  note w = ClassifyRole_marker_iff [of markerKeys "[(''kubernetes.io/os'', ''linux'')]"]
  note b = iffD2 [OF w [THEN conjunct2, THEN conjunct1] none]
  from key lbl a b show ?thesis
    by (intro conjI) ((elim conjE)?, assumption)+
qed


lemma MergeMetrics_no_source:
  "MergeMetrics ns [] = map (\<lambda>n. n\<lparr>metrics := None\<rparr>) ns"
  by (simp add: MergeMetrics_def)

lemma BuildSnapshot_metrics_failed:
  "BuildSnapshot ks (r\<lparr>fetched_metrics := Inl c\<rparr>) = BuildSnapshot ks (r\<lparr>fetched_metrics := Inr []\<rparr>)"
  by (simp add: BuildSnapshot_def Let_def)

lemma isl_BuildSnapshot: "isl (BuildSnapshot ks r) \<longleftrightarrow> length (partialFailures r) = 5"
  by (simp add: BuildSnapshot_def Let_def)

text \<open>
  C6. The outcome of the metrics fetch never decides whether the aggregator fails, and a
  failed metrics fetch gives the result of an empty metrics source. When the metrics fetch
  fails and the node fetch succeeds, the snapshot is built, holds every fetched node in
  order, each with \<open>metrics\<close> unset, and records nothing for the metrics. The detail view
  shows the capacity and allocatable rows for a node without metrics and adds the usage row
  exactly when metrics are present; the vertex of a node does not depend on its metrics.
\<close>

theorem metrics_failure_harmless:
  "isl (BuildSnapshot ks (r\<lparr>fetched_metrics := m\<rparr>)) = isl (BuildSnapshot ks r)
   \<and> BuildSnapshot ks (r\<lparr>fetched_metrics := Inl c\<rparr>)
       = BuildSnapshot ks (r\<lparr>fetched_metrics := Inr []\<rparr>)
   \<and> (fetched_metrics r = Inl c \<and> fetched_nodes r = Inr ns \<longrightarrow>
        (\<exists>snap. BuildSnapshot ks r = Inr (snap, partialFailures r)
           \<and> length (nodes snap) = length ns
           \<and> map name (nodes snap) = map name ns
           \<and> (\<forall>n \<in> set (nodes snap). metrics n = None)
           \<and> partialFailures r = partialFailures (r\<lparr>fetched_metrics := Inr []\<rparr>)))
   \<and> (metrics node = None \<longrightarrow>
        resourceRows node =
          [ResourceRow ''Capacity'' (cpu (capacity node)) (memory (capacity node))
             (shown (pods (capacity node))),
           ResourceRow ''Allocatable'' (cpu (allocatable node)) (memory (allocatable node))
             (shown (pods (allocatable node)))])
   \<and> (\<forall>u. metrics node = Some u \<longrightarrow>
        resourceRows node =
          [ResourceRow ''Capacity'' (cpu (capacity node)) (memory (capacity node))
             (shown (pods (capacity node))),
           ResourceRow ''Allocatable'' (cpu (allocatable node)) (memory (allocatable node))
             (shown (pods (allocatable node))),
           ResourceRow ''Current Usage'' (metrics_cpu u) (metrics_memory u) ''-''])
   \<and> content_resources (nodeContent node) = resourceRows node
   \<and> visNode (node\<lparr>metrics := x\<rparr>) = visNode node"
proof (intro conjI impI allI)
  show "isl (BuildSnapshot ks (r\<lparr>fetched_metrics := m\<rparr>)) = isl (BuildSnapshot ks r)"
    by (simp add: isl_BuildSnapshot)
  show "BuildSnapshot ks (r\<lparr>fetched_metrics := Inl c\<rparr>)
       = BuildSnapshot ks (r\<lparr>fetched_metrics := Inr []\<rparr>)"
    by (rule BuildSnapshot_metrics_failed)
  show "content_resources (nodeContent node) = resourceRows node"
    by (simp add: nodeContent_def)
  show "visNode (node\<lparr>metrics := x\<rparr>) = visNode node"
    by (simp add: visNode_def)
next
  assume a: "fetched_metrics r = Inl c \<and> fetched_nodes r = Inr ns"
  then have "\<not> isl (fetched_nodes r)" by simp
  then have not5: "length (partialFailures r) \<noteq> 5"
    by (simp add: all_failed_iff)
  let ?snap = "\<lparr>nodes = MergeMetrics
                 (map (\<lambda>n. n\<lparr>role := roleName (ClassifyRole ks (labels n)),
                              pods_on_node := podsOnNode (collection (fetched_pods r)) (name n),
                              metrics := None, pods_details := None\<rparr>)
                   (collection (fetched_nodes r)))
                 (collection (fetched_metrics r)),
              namespaces = collection (fetched_namespaces r),
              pods_list = collection (fetched_pods r),
              deployments = collection (fetched_deployments r),
              services = collection (fetched_services r)\<rparr>"
  have built: "BuildSnapshot ks r = Inr (?snap, partialFailures r)"
    by (rule BuildSnapshot_built [OF not5])
  have nodes: "nodes ?snap =
      map (\<lambda>n. n\<lparr>role := roleName (ClassifyRole ks (labels n)),
                   pods_on_node := podsOnNode (collection (fetched_pods r)) (name n),
                   metrics := None, pods_details := None\<rparr>) ns"
    using a by (simp add: MergeMetrics_no_source comp_def)
  have len: "length (nodes ?snap) = length ns"
    by (simp only: nodes length_map)
  have names: "map name (nodes ?snap) = map name ns"
    by (simp only: nodes) (simp add: comp_def)
  have unset: "\<forall>n \<in> set (nodes ?snap). metrics n = None"
    by (simp only: nodes) auto
  have same: "partialFailures r = partialFailures (r\<lparr>fetched_metrics := Inr []\<rparr>)"
    by simp
  from built len names unset same
  show "\<exists>snap. BuildSnapshot ks r = Inr (snap, partialFailures r)
           \<and> length (nodes snap) = length ns
           \<and> map name (nodes snap) = map name ns
           \<and> (\<forall>n \<in> set (nodes snap). metrics n = None)
           \<and> partialFailures r = partialFailures (r\<lparr>fetched_metrics := Inr []\<rparr>)"
    by (intro exI conjI) assumption+
next
  assume "metrics node = None"
  then show "resourceRows node =
          [ResourceRow ''Capacity'' (cpu (capacity node)) (memory (capacity node))
             (shown (pods (capacity node))),
           ResourceRow ''Allocatable'' (cpu (allocatable node)) (memory (allocatable node))
             (shown (pods (allocatable node)))]"
    by (simp add: resourceRows_def)
next
  fix u assume "metrics node = Some u"
  then show "resourceRows node =
          [ResourceRow ''Capacity'' (cpu (capacity node)) (memory (capacity node))
             (shown (pods (capacity node))),
           ResourceRow ''Allocatable'' (cpu (allocatable node)) (memory (allocatable node))
             (shown (pods (allocatable node))),
           ResourceRow ''Current Usage'' (metrics_cpu u) (metrics_memory u) ''-'']"
    by (simp add: resourceRows_def)
qed

theorem metrics_failure_harmless_witness:
  "fetched_metrics degradedResults = Inl ''metrics API not available''
   \<and> fetched_nodes degradedResults = Inr clusterSmall
   \<and> (\<exists>snap. BuildSnapshot markerKeys degradedResults = Inr (snap, partialFailures degradedResults)
          \<and> map name (nodes snap) = [''m1'', ''w1'', ''w2'']
          \<and> list_all (\<lambda>n. metrics n = None) (nodes snap))
   \<and> metrics (sampleNode ''w1'' ''worker'' None) = None
   \<and> length (resourceRows (sampleNode ''w1'' ''worker'' None)) = 2
   \<and> metrics (sampleNode ''w1'' ''worker'' (Some \<lparr>metrics_cpu = ''250m'', metrics_memory = ''1Gi''\<rparr>))
       = Some \<lparr>metrics_cpu = ''250m'', metrics_memory = ''1Gi''\<rparr>
   \<and> resourceRows (sampleNode ''w1'' ''worker'' (Some \<lparr>metrics_cpu = ''250m'', metrics_memory = ''1Gi''\<rparr>)) ! 2
       = ResourceRow ''Current Usage'' ''250m'' ''1Gi'' ''-''"
proof -
  note h = metrics_failure_harmless [where ks = markerKeys and r = degradedResults
      and c = "''metrics API not available''" and ns = clusterSmall
      and node = "sampleNode ''w1'' ''worker'' None"]
  note h3 = h [THEN conjunct2, THEN conjunct2]
  note u = metrics_failure_harmless [where node = "sampleNode ''w1'' ''worker''
        (Some \<lparr>metrics_cpu = ''250m'', metrics_memory = ''1Gi''\<rparr>)"]
  note u3 = u [THEN conjunct2, THEN conjunct2]
  from mp [OF h3 [THEN conjunct1] conjI [OF degraded_outcomes(4) degraded_outcomes(3)]]
  obtain snap where built: "BuildSnapshot markerKeys degradedResults
        = Inr (snap, partialFailures degradedResults)"
    and names: "map name (nodes snap) = map name clusterSmall"
    and unset: "\<forall>n \<in> set (nodes snap). metrics n = None"
    by (elim exE conjE)
  from names have names': "map name (nodes snap) = [''m1'', ''w1'', ''w2'']"
    by (simp add: clusterSmall_def)
  from unset have unset': "list_all (\<lambda>n. metrics n = None) (nodes snap)"
    by (simp add: list_all_iff)
  from built names' unset'
  have ex: "\<exists>snap. BuildSnapshot markerKeys degradedResults = Inr (snap, partialFailures degradedResults)
          \<and> map name (nodes snap) = [''m1'', ''w1'', ''w2'']
          \<and> list_all (\<lambda>n. metrics n = None) (nodes snap)"
    by (intro exI conjI) assumption+
  have none: "metrics (sampleNode ''w1'' ''worker'' None) = None" by simp
  from mp [OF h3 [THEN conjunct2, THEN conjunct1] none]
  have two: "length (resourceRows (sampleNode ''w1'' ''worker'' None)) = 2"
    by simp
  have some: "metrics (sampleNode ''w1'' ''worker'' (Some \<lparr>metrics_cpu = ''250m'', metrics_memory = ''1Gi''\<rparr>))
       = Some \<lparr>metrics_cpu = ''250m'', metrics_memory = ''1Gi''\<rparr>"
    by simp
  from mp [OF spec [OF u3 [THEN conjunct2, THEN conjunct2, THEN conjunct1]] some]
  have usage: "resourceRows (sampleNode ''w1'' ''worker''
        (Some \<lparr>metrics_cpu = ''250m'', metrics_memory = ''1Gi''\<rparr>)) ! 2
       = ResourceRow ''Current Usage'' ''250m'' ''1Gi'' ''-''"
    by simp
  from degraded_outcomes(4) degraded_outcomes(3) ex none two some usage show ?thesis
    by (intro conjI) ((elim conjE)?, assumption)+
qed

lemma find_SomeD_set: "find P xs = Some x \<Longrightarrow> x \<in> set xs \<and> P x"
  by (induction xs) (auto split: if_splits)

lemma find_None_set: "find P xs = None \<longleftrightarrow> (\<forall>x \<in> set xs. \<not> P x)"
  by (induction xs) auto

lemma ResolveNodeDetail_unknown:
  "nodeName \<notin> name ` set (nodes snap) \<Longrightarrow> ResolveNodeDetail snap nodeName = Inl NotFound"
proof -
  assume "nodeName \<notin> name ` set (nodes snap)"
  then have "find (\<lambda>n. name n = nodeName) (nodes snap) = None"
    by (auto simp: find_None_set)
  then show ?thesis by (simp add: ResolveNodeDetail_def)
qed

lemma ResolveNodeDetail_known:
  assumes "nodeName \<in> name ` set (nodes snap)"
  shows "\<exists>n \<in> set (nodes snap). name n = nodeName
           \<and> ResolveNodeDetail snap nodeName =
               Inr (n\<lparr>pods_details :=
                 Some (filter (\<lambda>p. pod_node p = nodeName) (pods_list snap))\<rparr>)"
proof -
  from assms have "find (\<lambda>n. name n = nodeName) (nodes snap) \<noteq> None"
    by (auto simp: find_None_set)
  then obtain n where n: "find (\<lambda>n. name n = nodeName) (nodes snap) = Some n"
    by auto
  from find_SomeD_set [OF n] have "n \<in> set (nodes snap)" and "name n = nodeName"
    by simp_all
  moreover from n have "ResolveNodeDetail snap nodeName =
               Inr (n\<lparr>pods_details :=
                 Some (filter (\<lambda>p. pod_node p = nodeName) (pods_list snap))\<rparr>)"
    by (simp add: ResolveNodeDetail_def)
  ultimately show ?thesis by blast
qed

text \<open>
  C7. For every snapshot and name the resolver either fails with \<open>NotFound\<close>, exactly when
  no node of the snapshot has that name, or returns a node of the snapshot with that name,
  every field as in the snapshot, together with all pods of the snapshot whose owning node
  is that name and no others. The panel stores what the request returned as it is, or keeps
  its state when the request failed.
\<close>

theorem ResolveNodeDetail_full_or_NotFound:
  "(ResolveNodeDetail snap nodeName = Inl NotFound \<longleftrightarrow> nodeName \<notin> name ` set (nodes snap))
   \<and> (nodeName \<in> name ` set (nodes snap) \<longrightarrow>
        (\<exists>n \<in> set (nodes snap). name n = nodeName
           \<and> ResolveNodeDetail snap nodeName =
               Inr (n\<lparr>pods_details :=
                 Some (filter (\<lambda>p. pod_node p = nodeName) (pods_list snap))\<rparr>)))
   \<and> (\<forall>d. ResolveNodeDetail snap nodeName = Inr d \<longrightarrow>
         name d = nodeName
         \<and> (\<exists>ps. pods_details d = Some ps
               \<and> set ps = {p \<in> set (pods_list snap). pod_node p = nodeName}
               \<and> length ps = length (filter (\<lambda>p. pod_node p = nodeName) (pods_list snap)))
         \<and> (\<exists>n \<in> set (nodes snap). d\<lparr>pods_details := pods_details n\<rparr> = n))
   \<and> (sel \<noteq> [] \<longrightarrow>
        detail_node (nodeDetailEffect (Some sel) f s)
          = (case f sel of Inr d \<Rightarrow> Some d | Inl e \<Rightarrow> detail_node s))"
proof (intro conjI impI allI)
  show "ResolveNodeDetail snap nodeName = Inl NotFound \<longleftrightarrow> nodeName \<notin> name ` set (nodes snap)"
  proof
    assume nf: "ResolveNodeDetail snap nodeName = Inl NotFound"
    show "nodeName \<notin> name ` set (nodes snap)"
    proof
      assume "nodeName \<in> name ` set (nodes snap)"
      from ResolveNodeDetail_known [OF this] nf show False by auto
    qed
  next
    assume "nodeName \<notin> name ` set (nodes snap)"
    then show "ResolveNodeDetail snap nodeName = Inl NotFound"
      by (rule ResolveNodeDetail_unknown)
  qed
next
  assume "nodeName \<in> name ` set (nodes snap)"
  then show "\<exists>n \<in> set (nodes snap). name n = nodeName
           \<and> ResolveNodeDetail snap nodeName =
               Inr (n\<lparr>pods_details :=
                 Some (filter (\<lambda>p. pod_node p = nodeName) (pods_list snap))\<rparr>)"
    by (rule ResolveNodeDetail_known)
next
  fix d assume d: "ResolveNodeDetail snap nodeName = Inr d"
  have "nodeName \<in> name ` set (nodes snap)"
  proof (rule ccontr)
    assume "nodeName \<notin> name ` set (nodes snap)"
    from ResolveNodeDetail_unknown [OF this] d show False by simp
  qed
  from ResolveNodeDetail_known [OF this] d
  obtain n where n: "n \<in> set (nodes snap)" "name n = nodeName"
    and dn: "d = n\<lparr>pods_details := Some (filter (\<lambda>p. pod_node p = nodeName) (pods_list snap))\<rparr>"
    by auto
  show "name d = nodeName" by (simp add: dn n)
  show "\<exists>ps. pods_details d = Some ps
               \<and> set ps = {p \<in> set (pods_list snap). pod_node p = nodeName}
               \<and> length ps = length (filter (\<lambda>p. pod_node p = nodeName) (pods_list snap))"
    by (simp add: dn)
  show "\<exists>n \<in> set (nodes snap). d\<lparr>pods_details := pods_details n\<rparr> = n"
    using n by (intro bexI [of _ n]) (simp_all add: dn)
next
  assume "sel \<noteq> []"
  then show "detail_node (nodeDetailEffect (Some sel) f s)
          = (case f sel of Inr d \<Rightarrow> Some d | Inl e \<Rightarrow> detail_node s)"
    by (simp add: nodeDetailEffect_def truthy_def split: sum.splits)
qed

theorem ResolveNodeDetail_full_or_NotFound_witness:
  "''w1'' \<in> name ` set (nodes sampleSnapshot)
   \<and> ResolveNodeDetail sampleSnapshot ''w1''
       = Inr ((sampleNode ''w1'' ''worker'' None)\<lparr>pods_details := Some [samplePod ''p1'' ''w1'']\<rparr>)
   \<and> ''ghost'' \<notin> name ` set (nodes sampleSnapshot)
   \<and> ResolveNodeDetail sampleSnapshot ''ghost'' = Inl NotFound
   \<and> ''w1'' \<noteq> []
   \<and> detail_node (nodeDetailEffect (Some ''w1'') sampleFetch initialDetail)
       = Some (sampleNode ''w1'' ''worker'' None)"
proof -
  have known: "''w1'' \<in> name ` set (nodes sampleSnapshot)"
    by (simp add: sampleSnapshot_def clusterSmall_def)
  have unknown: "''ghost'' \<notin> name ` set (nodes sampleSnapshot)"
    by (simp add: sampleSnapshot_def clusterSmall_def)
  have sel: "''w1'' \<noteq> []" by simp
  note t = ResolveNodeDetail_full_or_NotFound
  from mp [OF t [where snap = sampleSnapshot and nodeName = "''w1''", THEN conjunct2,
      THEN conjunct1] known]
  obtain n where "n \<in> set (nodes sampleSnapshot)" and "name n = ''w1''"
    and res: "ResolveNodeDetail sampleSnapshot ''w1'' =
        Inr (n\<lparr>pods_details :=
          Some (filter (\<lambda>p. pod_node p = ''w1'') (pods_list sampleSnapshot))\<rparr>)"
    by (elim bexE conjE)
  then have "n = sampleNode ''w1'' ''worker'' None"
    by (auto simp: sampleSnapshot_def clusterSmall_def)
  with res have a: "ResolveNodeDetail sampleSnapshot ''w1''
       = Inr ((sampleNode ''w1'' ''worker'' None)\<lparr>pods_details := Some [samplePod ''p1'' ''w1'']\<rparr>)"
    by (simp add: sampleSnapshot_def samplePod_def)
  note b = iffD2 [OF t [where snap = sampleSnapshot and nodeName = "''ghost''",
      THEN conjunct1] unknown]
  from mp [OF t [where sel = "''w1''" and f = sampleFetch and s = initialDetail,
      THEN conjunct2, THEN conjunct2, THEN conjunct2] sel]
  have c: "detail_node (nodeDetailEffect (Some ''w1'') sampleFetch initialDetail)
       = Some (sampleNode ''w1'' ''worker'' None)"
    by (simp add: sampleFetch_def)
  from known a unknown b sel c show ?thesis
    by (intro conjI) ((elim conjE)?, assumption)+
qed


end
